theory Spec2Isabelle
  imports Complex_Main
begin

section \<open>Python values\<close>

text \<open>
  The handlers of \<^verbatim>\<open>src/main.py\<close> read the per-modality results as plain Python
  dictionaries and branch on the truthiness of what \<^verbatim>\<open>.get\<close> returns. A dictionary is
  an association list (the first binding of a key is the one \<open>map_of\<close> finds); floats are
  idealised as reals; strings are byte lists (UTF-8).
\<close>

datatype pyval =
    PyNone
  | PyBool bool
  | PyInt int
  | PyFloat real
  | PyStr string
  | PyList "pyval list"
  | PyDict "(string \<times> pyval) list"

type_synonym pydict = "(string \<times> pyval) list"

text \<open>Python's truth value testing, as used by \<^verbatim>\<open>if x:\<close> and \<^verbatim>\<open>not x\<close>.\<close>

fun truthy :: "pyval \<Rightarrow> bool" where
  "truthy PyNone = False"
| "truthy (PyBool b) = b"
| "truthy (PyInt i) = (i \<noteq> 0)"
| "truthy (PyFloat r) = (r \<noteq> 0)"
| "truthy (PyStr s) = (s \<noteq> [])"
| "truthy (PyList xs) = (xs \<noteq> [])"
| "truthy (PyDict d) = (d \<noteq> [])"

text \<open>\<^verbatim>\<open>d.get(k)\<close>: the value, or \<^verbatim>\<open>None\<close> for a missing key.\<close>

definition dict_get :: "pydict \<Rightarrow> string \<Rightarrow> pyval" where
  "dict_get d k = (case map_of d k of None \<Rightarrow> PyNone | Some v \<Rightarrow> v)"

text \<open>\<^verbatim>\<open>d.get(k, default)\<close>: the default only for a missing key.\<close>

definition dict_get_default :: "pydict \<Rightarrow> string \<Rightarrow> pyval \<Rightarrow> pyval" where
  "dict_get_default d k dflt = (case map_of d k of None \<Rightarrow> dflt | Some v \<Rightarrow> v)"

text \<open>\<^verbatim>\<open>str(x)\<close> of an optional string, as an f-string renders it.\<close>

definition str_optional :: "string option \<Rightarrow> string" where
  "str_optional s = (case s of None \<Rightarrow> ''None'' | Some v \<Rightarrow> v)"

text \<open>Truthiness of an optional string: \<^verbatim>\<open>None\<close> and \<^verbatim>\<open>""\<close> are false.\<close>

definition truthy_str :: "string option \<Rightarrow> bool" where
  "truthy_str s = (case s of None \<Rightarrow> False | Some v \<Rightarrow> v \<noteq> [])"


section \<open>Errors\<close>

text \<open>
  The failures named by the error taxonomy of the specification (section 7), and the two
  library exceptions the handlers can meet: \<^verbatim>\<open>PIL.UnidentifiedImageError\<close> from
  \<^verbatim>\<open>Image.open\<close> and \<^verbatim>\<open>sqlalchemy.exc.ArgumentError\<close> from
  \<^verbatim>\<open>Session.execute\<close>. The handlers catch every exception and re-raise it as
  \<^verbatim>\<open>HTTPException(status_code=500, detail=str(e))\<close>; the detail is kept as the
  exception itself rather than its message.
\<close>

datatype error =
    InvalidIdentity
  | UnknownSession
  | StorageUnavailable
  | ClassifierUnavailable
  | UnidentifiedImageError
  | ArgumentError

datatype HTTPException = HTTPException (status_code: nat) (detail: error)


section \<open>The session and audit store\<close>

text \<open>
  Modelled from the spec: \<^verbatim>\<open>app.db.repository.Repository\<close> and the database session
  behind it are not part of the sources; the store and its operations follow section 3
  (data model) and section 4.4 (operations) of the specification. Time is a logical clock
  that every write advances.
\<close>

record session =
  created_at :: nat
  last_active_at :: nat

record ScanRecord =
  scan_session_id :: string
  modality :: string
  input_ref :: string
  raw_result :: pydict
  scan_created_at :: nat

record PhishingAttempt =
  attempt_session_id :: string
  source :: string
  content :: string
  attempt_reason :: pyval
  attempt_confidence :: pyval
  attempt_created_at :: nat

record ChatTurn =
  turn_id :: nat
  turn_session_id :: string
  user_message :: string
  bot_response :: string
  turn_created_at :: nat

record store =
  sessions :: "(string \<times> session) list"
  scans :: "ScanRecord list"
  phishing_attempts :: "PhishingAttempt list"
  chat_turns :: "ChatTurn list"
  clock :: nat
  available :: bool

text \<open>
  An action runs on the store and either raises or returns a value; the store it leaves
  behind is returned in both cases, since every repository operation commits on its own.
\<close>

type_synonym 'a action = "store \<Rightarrow> (error + 'a) \<times> store"

definition returns :: "'a \<Rightarrow> 'a action" where
  "returns x = (\<lambda>st. (Inr x, st))"

definition raise :: "error \<Rightarrow> 'a action" where
  "raise e = (\<lambda>st. (Inl e, st))"

definition bind :: "'a action \<Rightarrow> ('a \<Rightarrow> 'b action) \<Rightarrow> 'b action" where
  "bind m f = (\<lambda>st. case m st of (Inl e, st') \<Rightarrow> (Inl e, st') | (Inr x, st') \<Rightarrow> f x st')"

definition when_do :: "bool \<Rightarrow> unit action \<Rightarrow> unit action" where
  "when_do b m = (if b then m else returns ())"

text \<open>
  Modelled from the spec: \<^verbatim>\<open>ensure_session(id)\<close>, called
  \<^verbatim>\<open>Repository.create_or_update_session\<close> by the handlers. It creates the session on first
  reference, otherwise only refreshes \<open>last_active_at\<close>; it never errors for a non-empty
  id and fails with \<open>InvalidIdentity\<close> for an empty one.
\<close>

fun upsert_session :: "string \<Rightarrow> nat \<Rightarrow> (string \<times> session) list \<Rightarrow> (string \<times> session) list" where
  "upsert_session sid now [] = [(sid, \<lparr>created_at = now, last_active_at = now\<rparr>)]"
| "upsert_session sid now ((k, s) # rest) =
     (if k = sid then (k, s\<lparr>last_active_at := now\<rparr>) # rest
      else (k, s) # upsert_session sid now rest)"

definition session_exists :: "string \<Rightarrow> store \<Rightarrow> bool" where
  "session_exists sid st = (map_of (sessions st) sid \<noteq> None)"

definition repo_create_or_update_session :: "string \<Rightarrow> unit action" where
  "repo_create_or_update_session sid =
     (\<lambda>st. if sid = [] then (Inl InvalidIdentity, st)
           else (Inr (), st\<lparr>sessions := upsert_session sid (clock st) (sessions st),
                            clock := Suc (clock st)\<rparr>))"

text \<open>
  Modelled from the spec: \<^verbatim>\<open>record_scan(session_id, modality, input_ref, result)\<close>
  appends a ScanRecord; it fails with \<open>UnknownSession\<close> if the session does not exist and
  with \<open>StorageUnavailable\<close> on a persistence-layer outage. The handlers reach it as
  \<^verbatim>\<open>save_text_scan\<close>, \<^verbatim>\<open>save_logo_scan\<close> and \<^verbatim>\<open>save_url_scan\<close>.
\<close>

definition record_scan :: "string \<Rightarrow> string \<Rightarrow> string \<Rightarrow> pydict \<Rightarrow> unit action" where
  "record_scan sid m ref res =
     (\<lambda>st. if \<not> session_exists sid st then (Inl UnknownSession, st)
           else if \<not> available st then (Inl StorageUnavailable, st)
           else (Inr (), st\<lparr>scans := scans st @
                   [\<lparr>scan_session_id = sid, modality = m, input_ref = ref,
                     raw_result = res, scan_created_at = clock st\<rparr>],
                 clock := Suc (clock st)\<rparr>))"

definition repo_save_text_scan :: "string \<Rightarrow> string \<Rightarrow> pydict \<Rightarrow> unit action" where
  "repo_save_text_scan sid txt res = record_scan sid ''text'' txt res"

definition repo_save_logo_scan :: "string \<Rightarrow> string \<Rightarrow> pydict \<Rightarrow> unit action" where
  "repo_save_logo_scan sid fname res = record_scan sid ''logo'' fname res"

definition repo_save_url_scan :: "string \<Rightarrow> string \<Rightarrow> pydict \<Rightarrow> unit action" where
  "repo_save_url_scan sid u res = record_scan sid ''url'' u res"

text \<open>
  Modelled from the spec: \<^verbatim>\<open>record_phishing_attempt(session_id, source, content, reason,
  confidence)\<close> appends a PhishingAttempt; it always succeeds if the session exists and
  never deduplicates.
\<close>

definition repo_save_phishing_attempt ::
  "string \<Rightarrow> string \<Rightarrow> string \<Rightarrow> pyval \<Rightarrow> pyval \<Rightarrow> unit action" where
  "repo_save_phishing_attempt sid src cont rsn conf =
     (\<lambda>st. if \<not> session_exists sid st then (Inl UnknownSession, st)
           else (Inr (), st\<lparr>phishing_attempts := phishing_attempts st @
                   [\<lparr>attempt_session_id = sid, source = src, content = cont,
                     attempt_reason = rsn, attempt_confidence = conf,
                     attempt_created_at = clock st\<rparr>],
                 clock := Suc (clock st)\<rparr>))"

text \<open>
  Modelled from the spec: \<^verbatim>\<open>record_chat_turn(session_id, user_message, bot_response)\<close>
  appends a ChatTurn (\<^verbatim>\<open>Repository.save_message\<close>).
\<close>

definition repo_save_message :: "string \<Rightarrow> string \<Rightarrow> string \<Rightarrow> unit action" where
  "repo_save_message sid msg reply =
     (\<lambda>st. (Inr (), st\<lparr>chat_turns := chat_turns st @
                   [\<lparr>turn_id = Suc (length (chat_turns st)), turn_session_id = sid,
                     user_message = msg, bot_response = reply,
                     turn_created_at = clock st\<rparr>],
                 clock := Suc (clock st)\<rparr>))"

text \<open>
  Modelled from the spec: \<^verbatim>\<open>query_chat_history(session_id: optional, limit)\<close> returns
  up to \<open>limit\<close> ChatTurns ordered most-recent-first, optionally filtered to one session,
  and an empty sequence (not an error) when none exist
  (\<^verbatim>\<open>Repository.get_chat_history\<close>).
\<close>

definition matches_session :: "string option \<Rightarrow> ChatTurn \<Rightarrow> bool" where
  "matches_session sid t = (case sid of None \<Rightarrow> True | Some s \<Rightarrow> turn_session_id t = s)"

definition repo_get_chat_history :: "string option \<Rightarrow> int \<Rightarrow> (ChatTurn list) action" where
  "repo_get_chat_history sid limit =
     (\<lambda>st. (Inr (take (nat limit) (rev (filter (matches_session sid) (chat_turns st)))), st))"

text \<open>
  \<^verbatim>\<open>Session.execute\<close> belongs to the SQLAlchemy library, which the sources import
  without fixing a version. Its argument is either a plain Python string or a
  \<^verbatim>\<open>text(...)\<close> clause. Running a statement raises when the store is unreachable. From
  SQLAlchemy 2.0 on, a plain string is refused with \<^verbatim>\<open>ArgumentError\<close> before anything
  is sent, whatever the state of the store; before 2.0 it is run like a text clause. The
  handlers take the method as a parameter; the two behaviours are defined here.
\<close>

datatype statement = Plain_string string | Text_clause string

type_synonym execute = "statement \<Rightarrow> unit action"

definition run_statement :: "unit action" where
  "run_statement = (\<lambda>st. if available st then (Inr (), st) else (Inl StorageUnavailable, st))"

definition execute_from_2_0 :: execute where
  "execute_from_2_0 stmt =
     (case stmt of
        Plain_string q \<Rightarrow> raise ArgumentError
      | Text_clause q \<Rightarrow> run_statement)"

definition execute_before_2_0 :: execute where
  "execute_before_2_0 stmt = run_statement"


section \<open>The workflow as the handlers see it\<close>

text \<open>
  \<^verbatim>\<open>app.graph.workflow.MultiAgentWorkflow\<close> is not part of the sources. The handlers use
  three things of it: the \<^verbatim>\<open>model\<close> attribute of each agent (health check), and
  \<^verbatim>\<open>analyze_sync(text, url, image, session_id)\<close>, whose result is a dictionary read
  with \<^verbatim>\<open>.get\<close>. A key of that dictionary that is missing (or \<^verbatim>\<open>None\<close>) is \<open>None\<close>
  here; a key that is present holds a value of the type the response schema declares.
\<close>

datatype agent = Agent_without_model | Agent (model: "string option")

record workflow_result =
  get_text_result :: "pydict option"
  get_logo_result :: "pydict option"
  get_url_result :: "pydict option"
  get_final_decision :: "string option"
  get_risk_score :: "real option"
  get_explanation :: "string option"

type_synonym image = string

record workflow =
  logo_agent :: agent
  text_agent :: agent
  url_agent :: agent
  analyze_sync :: "string option \<Rightarrow> string option \<Rightarrow> image option \<Rightarrow> string \<Rightarrow> workflow_result"

record UploadFile =
  filename :: string
  contents :: string

text \<open>
  \<^verbatim>\<open>Image.open(io.BytesIO(contents))\<close> belongs to the Pillow library: it returns an
  image or raises when the bytes are not an image it can identify. The handlers take it
  as a parameter. An image is represented by the bytes it was decoded from.
\<close>

type_synonym image_open = "string \<Rightarrow> error + image"

text \<open>An outcome that is a value or an exception, raised where it is used.\<close>

definition get_result :: "error + 'a \<Rightarrow> 'a action" where
  "get_result r = (case r of Inl e \<Rightarrow> raise e | Inr x \<Rightarrow> returns x)"

text \<open>
  \<^verbatim>\<open>image = None\<close>, and, \<^verbatim>\<open>if file:\<close>, the image opened from the contents of the
  upload (the multi-input and the chat handler).
\<close>

definition open_upload :: "image_open \<Rightarrow> UploadFile option \<Rightarrow> error + image option" where
  "open_upload Image_open file =
     (case file of
        None \<Rightarrow> Inr None
      | Some f \<Rightarrow> (case Image_open (contents f) of Inl e \<Rightarrow> Inl e | Inr img \<Rightarrow> Inr (Some img)))"

text \<open>
  \<^verbatim>\<open>result.get(key, default)\<close> on the typed result: the default stands in for a
  missing key. A key that is present with the value \<^verbatim>\<open>None\<close> has no counterpart in the
  typed result (\<^verbatim>\<open>dict.get\<close> would give back that \<^verbatim>\<open>None\<close>, not the default), so
  nothing below speaks about such a result.
\<close>

definition get_or :: "'a option \<Rightarrow> 'a \<Rightarrow> 'a" where
  "get_or v dflt = (case v of None \<Rightarrow> dflt | Some x \<Rightarrow> x)"

text \<open>Truthiness of \<^verbatim>\<open>result.get("..._result")\<close>: a non-empty dictionary.\<close>

definition truthy_result :: "pydict option \<Rightarrow> bool" where
  "truthy_result r = (case r of None \<Rightarrow> False | Some d \<Rightarrow> d \<noteq> [])"

text \<open>\<^verbatim>\<open>result["..._result"]\<close>, read only under the truthiness guard.\<close>

definition result_dict :: "pydict option \<Rightarrow> pydict" where
  "result_dict r = (case r of None \<Rightarrow> [] | Some d \<Rightarrow> d)"


section \<open>Responses\<close>

record AnalysisResponse =
  logo_result :: "pydict option"
  text_result :: "pydict option"
  url_result :: "pydict option"
  final_decision :: string
  risk_score :: real
  explanation :: string
  session_id :: string

record ChatResponse =
  message :: string
  analysis :: AnalysisResponse
  chat_session_id :: string

record ChatHistoryResponse =
  history :: "pydict list"
  total :: nat

record HealthResponse =
  status :: string
  models_loaded :: "(string \<times> bool) list"
  database_connected :: bool

text \<open>
  The \<^verbatim>\<open>try: ... except Exception as e: raise HTTPException(status_code=500,
  detail=str(e))\<close> frame around the body of every handler but the health check.
\<close>

definition except_http_500 :: "'a action \<Rightarrow> store \<Rightarrow> (HTTPException + 'a) \<times> store" where
  "except_http_500 body st =
     (case body st of
        (Inl e, st') \<Rightarrow> (Inl (HTTPException 500 e), st')
      | (Inr r, st') \<Rightarrow> (Inr r, st'))"


section \<open>Handlers of src/main.py\<close>

subsection \<open>GET /health\<close>

definition model_loaded :: "agent \<Rightarrow> bool" where
  "model_loaded a = (case a of Agent_without_model \<Rightarrow> False | Agent m \<Rightarrow> m \<noteq> None)"

definition health_check :: "execute \<Rightarrow> workflow \<Rightarrow> store \<Rightarrow> HealthResponse \<times> store" where
  "health_check db_execute flow st =
     (let loaded = [(''logo_agent'', model_loaded (logo_agent flow)),
                    (''text_agent'', model_loaded (text_agent flow)),
                    (''url_agent'', model_loaded (url_agent flow))];
          (probe, st') = db_execute (Plain_string ''SELECT 1'') st;
          db_connected = (case probe of Inl e \<Rightarrow> False | Inr u \<Rightarrow> True);
          stat = (if list_all (\<lambda>b. b) (map snd loaded) \<and> db_connected then ''healthy''
                  else if db_connected then ''degraded_fallback''
                  else ''degraded'')
      in (\<lparr>status = stat, models_loaded = loaded, database_connected = db_connected\<rparr>, st'))"

subsection \<open>POST /analyze/text, /analyze/logo, /analyze/url\<close>

definition analyze_text ::
  "string \<Rightarrow> string \<Rightarrow> workflow \<Rightarrow> store \<Rightarrow> (HTTPException + AnalysisResponse) \<times> store" where
  "analyze_text txt sid flow =
     except_http_500
       (bind (repo_create_or_update_session sid) (\<lambda>_.
        let result = analyze_sync flow (Some txt) None None sid in
        bind (when_do (truthy_result (get_text_result result))
               (bind (repo_save_text_scan sid txt (result_dict (get_text_result result))) (\<lambda>_.
                when_do (truthy (dict_get (result_dict (get_text_result result)) ''is_fraud''))
                  (repo_save_phishing_attempt sid ''text'' txt
                     (dict_get_default (result_dict (get_text_result result)) ''reason''
                        (PyStr ''Fraudulent text detected''))
                     (dict_get_default (result_dict (get_text_result result)) ''confidence''
                        (PyFloat 0)))))) (\<lambda>_.
        returns \<lparr>logo_result = None,
                 text_result = get_text_result result,
                 url_result = None,
                 final_decision = get_or (get_final_decision result) ''unknown'',
                 risk_score = get_or (get_risk_score result) 0,
                 explanation = get_or (get_explanation result) [],
                 session_id = sid\<rparr>)))"

definition analyze_logo ::
  "image_open \<Rightarrow> UploadFile \<Rightarrow> string \<Rightarrow> workflow \<Rightarrow> store
     \<Rightarrow> (HTTPException + AnalysisResponse) \<times> store" where
  "analyze_logo Image_open file sid flow =
     except_http_500
       (bind (repo_create_or_update_session sid) (\<lambda>_.
        bind (get_result (Image_open (contents file))) (\<lambda>img.
        let result = analyze_sync flow None None (Some img) sid in
        bind (when_do (truthy_result (get_logo_result result))
               (bind (repo_save_logo_scan sid (filename file) (result_dict (get_logo_result result))) (\<lambda>_.
                when_do (truthy (dict_get (result_dict (get_logo_result result)) ''is_suspicious''))
                  (repo_save_phishing_attempt sid ''logo'' (filename file)
                     (dict_get_default (result_dict (get_logo_result result)) ''reason''
                        (PyStr ''Suspicious logo detected''))
                     (dict_get_default (result_dict (get_logo_result result)) ''confidence''
                        (PyFloat 0)))))) (\<lambda>_.
        returns \<lparr>logo_result = get_logo_result result,
                 text_result = None,
                 url_result = None,
                 final_decision = get_or (get_final_decision result) ''unknown'',
                 risk_score = get_or (get_risk_score result) 0,
                 explanation = get_or (get_explanation result) [],
                 session_id = sid\<rparr>))))"

definition analyze_url ::
  "string \<Rightarrow> string \<Rightarrow> workflow \<Rightarrow> store \<Rightarrow> (HTTPException + AnalysisResponse) \<times> store" where
  "analyze_url u sid flow =
     except_http_500
       (bind (repo_create_or_update_session sid) (\<lambda>_.
        let result = analyze_sync flow None (Some u) None sid in
        bind (when_do (truthy_result (get_url_result result))
               (bind (repo_save_url_scan sid u (result_dict (get_url_result result))) (\<lambda>_.
                when_do (\<not> truthy (dict_get (result_dict (get_url_result result)) ''safe''))
                  (repo_save_phishing_attempt sid ''url'' u
                     (dict_get_default (result_dict (get_url_result result)) ''reason''
                        (PyStr ''Malicious URL detected''))
                     (dict_get_default (result_dict (get_url_result result)) ''confidence''
                        (PyFloat 0)))))) (\<lambda>_.
        returns \<lparr>logo_result = None,
                 text_result = None,
                 url_result = get_url_result result,
                 final_decision = get_or (get_final_decision result) ''unknown'',
                 risk_score = get_or (get_risk_score result) 0,
                 explanation = get_or (get_explanation result) [],
                 session_id = sid\<rparr>)))"


subsection \<open>POST /analyze/all\<close>

definition analyze_all ::
  "image_open \<Rightarrow> string option \<Rightarrow> string option \<Rightarrow> UploadFile option \<Rightarrow> string
     \<Rightarrow> workflow \<Rightarrow> store \<Rightarrow> (HTTPException + AnalysisResponse) \<times> store" where
  "analyze_all Image_open txt u file sid flow =
     except_http_500
       (bind (repo_create_or_update_session sid) (\<lambda>_.
        bind (get_result (open_upload Image_open file)) (\<lambda>img.
        let result = analyze_sync flow txt u img sid in
        bind (when_do (truthy_result (get_logo_result result) \<and> file \<noteq> None)
               (repo_save_logo_scan sid (case file of None \<Rightarrow> [] | Some f \<Rightarrow> filename f)
                  (result_dict (get_logo_result result)))) (\<lambda>_.
        bind (when_do (truthy_result (get_text_result result) \<and> truthy_str txt)
               (repo_save_text_scan sid (str_optional txt)
                  (result_dict (get_text_result result)))) (\<lambda>_.
        bind (when_do (truthy_result (get_url_result result) \<and> truthy_str u)
               (repo_save_url_scan sid (str_optional u)
                  (result_dict (get_url_result result)))) (\<lambda>_.
        bind (when_do (get_final_decision result \<in> {Some ''suspicious'', Some ''dangerous''})
               (let cont = ''Text: '' @ str_optional txt @ '', URL: '' @ str_optional u @
                           '', Image: '' @ (case file of None \<Rightarrow> ''None'' | Some f \<Rightarrow> filename f)
                in repo_save_phishing_attempt sid ''combined'' cont
                     (PyStr (get_or (get_explanation result) ''Multiple indicators detected''))
                     (PyFloat (get_or (get_risk_score result) 0)))) (\<lambda>_.
        returns \<lparr>logo_result = get_logo_result result,
                 text_result = get_text_result result,
                 url_result = get_url_result result,
                 final_decision = get_or (get_final_decision result) ''unknown'',
                 risk_score = get_or (get_risk_score result) 0,
                 explanation = get_or (get_explanation result) [],
                 session_id = sid\<rparr>)))))))"

subsection \<open>POST /chat\<close>

text \<open>
  The format specification \<^verbatim>\<open>.0%\<close>: the value times 100, rounded to the nearest
  integer (ties to even), in decimal, followed by a percent sign. The product and the
  rounding are those of the reals; Python rounds the double product, which agrees with
  this where that product is exact (as at 0, 0.5 and 1) and may differ by one elsewhere.
\<close>

fun nat_digits :: "nat \<Rightarrow> string" where
  "nat_digits n =
     (if n < 10 then [''0123456789'' ! n]
      else nat_digits (n div 10) @ [''0123456789'' ! (n mod 10)])"

definition round_half_even :: "real \<Rightarrow> int" where
  "round_half_even x =
     (let f = \<lfloor>x\<rfloor>; d = x - of_int f
      in if d < 1 / 2 then f else if 1 / 2 < d then f + 1 else if even f then f else f + 1)"

definition format_percent :: "real \<Rightarrow> string" where
  "format_percent r =
     (if r < 0 then ''-'' else []) @ nat_digits (nat \<bar>round_half_even (r * 100)\<bar>) @ ''%''"

text \<open>The three message templates; the leading bytes are the UTF-8 of the emoji.\<close>

definition safe_template :: string where
  "safe_template =
     [CHR 0xE2, CHR 0x9C, CHR 0x85] @
     '' Everything looks good! Your message appears to be safe.''"

definition suspicious_template :: string where
  "suspicious_template =
     [CHR 0xE2, CHR 0x9A, CHR 0xA0, CHR 0xEF, CHR 0xB8, CHR 0x8F] @
     '' I've detected some concerning indicators. Please be cautious.''"

definition dangerous_template :: string where
  "dangerous_template =
     [CHR 0xF0, CHR 0x9F, CHR 0x9A, CHR 0xA8] @
     '' Warning! This appears to be a phishing or fraud attempt. Do not proceed!''"

definition compose_bot_message :: "string \<Rightarrow> real \<Rightarrow> string \<Rightarrow> string" where
  "compose_bot_message decision risk expl =
     (if decision = ''safe'' then safe_template @ [CHR 0x0A, CHR 0x0A] @ expl
      else if decision = ''suspicious'' then suspicious_template @ [CHR 0x0A, CHR 0x0A] @ expl
      else dangerous_template @ [CHR 0x0A, CHR 0x0A] @ expl)
     @ [CHR 0x0A, CHR 0x0A] @ ''Risk Score: '' @ format_percent risk"

definition chat ::
  "image_open \<Rightarrow> string \<Rightarrow> string option \<Rightarrow> UploadFile option \<Rightarrow> string \<Rightarrow> workflow
     \<Rightarrow> store \<Rightarrow> (HTTPException + ChatResponse) \<times> store" where
  "chat Image_open msg u file sid flow =
     except_http_500
       (bind (repo_create_or_update_session sid) (\<lambda>_.
        bind (get_result (open_upload Image_open file)) (\<lambda>img.
        let result = analyze_sync flow (Some msg) u img sid;
            decision = get_or (get_final_decision result) ''unknown'';
            risk = get_or (get_risk_score result) 0;
            expl = get_or (get_explanation result) [];
            bot_message = compose_bot_message decision risk expl in
        bind (repo_save_message sid msg bot_message) (\<lambda>_.
        bind (when_do (truthy_result (get_logo_result result) \<and> file \<noteq> None)
               (repo_save_logo_scan sid (case file of None \<Rightarrow> [] | Some f \<Rightarrow> filename f)
                  (result_dict (get_logo_result result)))) (\<lambda>_.
        bind (when_do (truthy_result (get_text_result result))
               (repo_save_text_scan sid msg (result_dict (get_text_result result)))) (\<lambda>_.
        bind (when_do (truthy_result (get_url_result result) \<and> truthy_str u)
               (repo_save_url_scan sid (str_optional u)
                  (result_dict (get_url_result result)))) (\<lambda>_.
        returns \<lparr>message = bot_message,
                 analysis = \<lparr>logo_result = get_logo_result result,
                              text_result = get_text_result result,
                              url_result = get_url_result result,
                              final_decision = decision,
                              risk_score = risk,
                              explanation = expl,
                              session_id = sid\<rparr>,
                 chat_session_id = sid\<rparr>)))))))"

subsection \<open>GET /chat/history\<close>

definition history_item :: "ChatTurn \<Rightarrow> pydict" where
  "history_item item =
     [(''id'', PyInt (int (turn_id item))),
      (''user_message'', PyStr (user_message item)),
      (''bot_response'', PyStr (bot_response item)),
      (''created_at'', PyInt (int (turn_created_at item)))]"

definition get_chat_history ::
  "string option \<Rightarrow> int \<Rightarrow> store \<Rightarrow> (HTTPException + ChatHistoryResponse) \<times> store" where
  "get_chat_history sid limit =
     except_http_500
       (bind (repo_get_chat_history sid limit) (\<lambda>hist.
        returns \<lparr>history = map history_item hist, total = length hist\<rparr>))"


section \<open>Dispatcher and fusion engine\<close>

text \<open>
  Modelled from the spec: the classifier adapter contract (section 4.1). The classifiers
  are external; an adapter returns a \<open>ModalityResult\<close> or fails with
  \<open>ClassifierUnavailable\<close>.
\<close>

record ModalityResult =
  triggered :: bool
  confidence :: real
  reason :: string

record adapters =
  classify_text :: "string \<Rightarrow> error + ModalityResult"
  classify_logo :: "image \<Rightarrow> error + ModalityResult"
  classify_url :: "string \<Rightarrow> error + ModalityResult"

text \<open>
  Modelled from the spec: the Modality Dispatcher (section 4.2), part of the absent
  \<^verbatim>\<open>app.graph.workflow\<close>. For each present input whose adapter is available the adapter
  is invoked; absent inputs are skipped and an unavailable adapter means no result for
  that modality. The mapping lists the modalities in the fixed order text, logo, url.
\<close>

record modality_mapping =
  text_modality :: "ModalityResult option"
  logo_modality :: "ModalityResult option"
  url_modality :: "ModalityResult option"

definition invoke :: "('i \<Rightarrow> error + ModalityResult) \<Rightarrow> 'i option \<Rightarrow> ModalityResult option" where
  "invoke adapter inp =
     (case inp of
        None \<Rightarrow> None
      | Some x \<Rightarrow> (case adapter x of Inl e \<Rightarrow> None | Inr r \<Rightarrow> Some r))"

definition dispatch ::
  "adapters \<Rightarrow> string option \<Rightarrow> string option \<Rightarrow> image option \<Rightarrow> modality_mapping" where
  "dispatch ad txt u img =
     \<lparr>text_modality = invoke (classify_text ad) txt,
      logo_modality = invoke (classify_logo ad) img,
      url_modality = invoke (classify_url ad) u\<rparr>"

definition entries :: "modality_mapping \<Rightarrow> ModalityResult list" where
  "entries m =
     (case text_modality m of None \<Rightarrow> [] | Some r \<Rightarrow> [r]) @
     (case logo_modality m of None \<Rightarrow> [] | Some r \<Rightarrow> [r]) @
     (case url_modality m of None \<Rightarrow> [] | Some r \<Rightarrow> [r])"

text \<open>
  Modelled from the spec: the Fusion Engine (section 4.3), part of the absent
  \<^verbatim>\<open>app.graph.workflow\<close>. Step 1: an empty mapping gives risk 0.0, decision unknown and
  a fixed explanation. Step 2: noisy-OR over the contributions, a confidence outside
  [0,1] being clamped before use. Step 3: the fixed thresholds 0.3 and 0.7. Step 4: the
  reasons of the triggered modalities appended in the order text, logo, url, or a fixed
  string when none triggered.
\<close>

datatype decision = Unknown | Safe | Suspicious | Dangerous

fun decision_name :: "decision \<Rightarrow> string" where
  "decision_name Unknown = ''unknown''"
| "decision_name Safe = ''safe''"
| "decision_name Suspicious = ''suspicious''"
| "decision_name Dangerous = ''dangerous''"

definition clamp_confidence :: "real \<Rightarrow> real" where
  "clamp_confidence c = max 0 (min 1 c)"

definition contribution :: "ModalityResult \<Rightarrow> real" where
  "contribution r = (if triggered r then clamp_confidence (confidence r) else 0)"

definition noisy_or :: "ModalityResult list \<Rightarrow> real" where
  "noisy_or rs = 1 - prod_list (map (\<lambda>r. 1 - contribution r) rs)"

definition decide :: "real \<Rightarrow> decision" where
  "decide risk =
     (if risk < 0.3 then Safe else if risk < 0.7 then Suspicious else Dangerous)"

definition explain :: "ModalityResult list \<Rightarrow> string" where
  "explain rs =
     (if filter triggered rs = []
      then ''No suspicious indicators detected across analyzed modalities.''
      else concat (map reason (filter triggered rs)))"

record fusion =
  fused_risk_score :: real
  fused_decision :: decision
  fused_explanation :: string

definition fuse :: "modality_mapping \<Rightarrow> fusion" where
  "fuse m =
     (if entries m = []
      then \<lparr>fused_risk_score = 0, fused_decision = Unknown,
            fused_explanation = ''No input provided for analysis.''\<rparr>
      else \<lparr>fused_risk_score = noisy_or (entries m),
            fused_decision = decide (noisy_or (entries m)),
            fused_explanation = explain (entries m)\<rparr>)"

text \<open>
  Modelled from the spec: the result dictionary of \<^verbatim>\<open>analyze_sync\<close>. Each modality's
  result is given back under the flag name the handlers of \<^verbatim>\<open>src/main.py\<close> read
  (\<^verbatim>\<open>is_fraud\<close> for text, \<^verbatim>\<open>is_suspicious\<close> for logo, \<^verbatim>\<open>safe\<close> for url, which is the
  negation of triggered), next to the fused score, decision and explanation.
\<close>

definition text_native :: "ModalityResult \<Rightarrow> pydict" where
  "text_native r =
     [(''is_fraud'', PyBool (triggered r)),
      (''confidence'', PyFloat (confidence r)),
      (''reason'', PyStr (reason r))]"

definition logo_native :: "ModalityResult \<Rightarrow> pydict" where
  "logo_native r =
     [(''is_suspicious'', PyBool (triggered r)),
      (''confidence'', PyFloat (confidence r)),
      (''reason'', PyStr (reason r))]"

definition url_native :: "ModalityResult \<Rightarrow> pydict" where
  "url_native r =
     [(''safe'', PyBool (\<not> triggered r)),
      (''confidence'', PyFloat (confidence r)),
      (''reason'', PyStr (reason r))]"

definition fusion_analyze_sync ::
  "adapters \<Rightarrow> string option \<Rightarrow> string option \<Rightarrow> image option \<Rightarrow> string \<Rightarrow> workflow_result" where
  "fusion_analyze_sync ad txt u img sid =
     (let m = dispatch ad txt u img; f = fuse m
      in \<lparr>get_text_result = map_option text_native (text_modality m),
          get_logo_result = map_option logo_native (logo_modality m),
          get_url_result = map_option url_native (url_modality m),
          get_final_decision = Some (decision_name (fused_decision f)),
          get_risk_score = Some (fused_risk_score f),
          get_explanation = Some (fused_explanation f)\<rparr>)"


section \<open>Concrete workflows and stores\<close>

text \<open>A store with no session and no record, reachable.\<close>

definition empty_store :: store where
  "empty_store =
     \<lparr>sessions = [], scans = [], phishing_attempts = [], chat_turns = [],
      clock = 0, available = True\<rparr>"

text \<open>A workflow with the three models loaded whose analysis returns a given result.\<close>

definition constant_workflow :: "workflow_result \<Rightarrow> workflow" where
  "constant_workflow result =
     \<lparr>logo_agent = Agent (Some ''logo''),
      text_agent = Agent (Some ''text''),
      url_agent = Agent (Some ''url''),
      analyze_sync = (\<lambda>txt u img sid. result)\<rparr>"

text \<open>
  Modelled from the spec: a workflow with the three models loaded whose analysis is the
  dispatcher followed by the fusion engine.
\<close>

definition fusion_workflow :: "adapters \<Rightarrow> workflow" where
  "fusion_workflow ad =
     \<lparr>logo_agent = Agent (Some ''logo''),
      text_agent = Agent (Some ''text''),
      url_agent = Agent (Some ''url''),
      analyze_sync = fusion_analyze_sync ad\<rparr>"

text \<open>Adapters that answer every input with a fixed outcome.\<close>

definition fixed_adapters ::
  "error + ModalityResult \<Rightarrow> error + ModalityResult \<Rightarrow> error + ModalityResult \<Rightarrow> adapters" where
  "fixed_adapters t l u =
     \<lparr>classify_text = (\<lambda>x. t), classify_logo = (\<lambda>x. l), classify_url = (\<lambda>x. u)\<rparr>"

text \<open>An \<^verbatim>\<open>Image.open\<close> that identifies every upload, and one that identifies none.\<close>

definition every_upload_decodes :: image_open where
  "every_upload_decodes bytes = Inr bytes"

definition no_upload_decodes :: image_open where
  "no_upload_decodes bytes = Inl UnidentifiedImageError"

text \<open>A result dictionary with no key at all.\<close>

definition no_keys :: workflow_result where
  "no_keys =
     \<lparr>get_text_result = None, get_logo_result = None, get_url_result = None,
      get_final_decision = None, get_risk_score = None, get_explanation = None\<rparr>"


text \<open>
  Scenario A of the specification: text only, triggered with confidence 0.9. Scenario B:
  text triggered with confidence 0.4, url triggered with confidence 0.5, no logo result.
  A third set of adapters has the text classifier trigger with the low confidence 0.1.
\<close>

definition scenario_A :: adapters where
  "scenario_A = fixed_adapters
     (Inr \<lparr>triggered = True, confidence = 0.9, reason = ''asks for a one-time password''\<rparr>)
     (Inl ClassifierUnavailable)
     (Inl ClassifierUnavailable)"

definition scenario_B :: adapters where
  "scenario_B = fixed_adapters
     (Inr \<lparr>triggered = True, confidence = 0.4, reason = ''urgent payment request''\<rparr>)
     (Inl ClassifierUnavailable)
     (Inr \<lparr>triggered = True, confidence = 0.5, reason = ''lookalike domain''\<rparr>)"

definition low_confidence_trigger :: adapters where
  "low_confidence_trigger = fixed_adapters
     (Inr \<lparr>triggered = True, confidence = 0.1, reason = ''mentions a prize''\<rparr>)
     (Inl ClassifierUnavailable)
     (Inl ClassifierUnavailable)"

text \<open>A store holding three chat turns of one session, oldest first.\<close>

definition three_turns :: store where
  "three_turns =
     \<lparr>sessions = [(''s1'', \<lparr>created_at = 0, last_active_at = 4\<rparr>)],
      scans = [], phishing_attempts = [],
      chat_turns =
        [\<lparr>turn_id = 1, turn_session_id = ''s1'', user_message = ''first'',
          bot_response = ''r1'', turn_created_at = 1\<rparr>,
         \<lparr>turn_id = 2, turn_session_id = ''s1'', user_message = ''second'',
          bot_response = ''r2'', turn_created_at = 3\<rparr>,
         \<lparr>turn_id = 3, turn_session_id = ''s1'', user_message = ''third'',
          bot_response = ''r3'', turn_created_at = 5\<rparr>],
      clock = 6, available = True\<rparr>"

text \<open>A url result that is an empty dictionary, and one that has neither flag nor reason
  nor confidence.\<close>

definition empty_url_result :: workflow_result where
  "empty_url_result = no_keys\<lparr>get_url_result := Some []\<rparr>"

definition bare_url_result :: workflow_result where
  "bare_url_result = no_keys\<lparr>get_url_result := Some [(''domain'', PyStr ''absher.example'')]\<rparr>"


text \<open>Adapters none of which is available.\<close>

definition all_unavailable :: adapters where
  "all_unavailable = fixed_adapters (Inl ClassifierUnavailable) (Inl ClassifierUnavailable)
     (Inl ClassifierUnavailable)"


section \<open>Auxiliary facts\<close>

lemmas action_defs = bind_def returns_def raise_def when_do_def get_result_def
  except_http_500_def

lemmas repo_defs = repo_create_or_update_session_def record_scan_def repo_save_text_scan_def
  repo_save_logo_scan_def repo_save_url_scan_def repo_save_phishing_attempt_def
  repo_save_message_def session_exists_def

lemma upsert_session_present: "map_of (upsert_session sid now xs) sid \<noteq> None"
  by (induction xs) auto

lemma contribution_unclamped:
  "0 \<le> confidence r \<Longrightarrow> confidence r \<le> 1 \<Longrightarrow>
   contribution r = (if triggered r then confidence r else 0)"
  by (simp add: contribution_def clamp_confidence_def)

lemma prod_complements_unclamped:
  "list_all (\<lambda>r. 0 \<le> confidence r \<and> confidence r \<le> 1) rs \<Longrightarrow>
   prod_list (map (\<lambda>r. 1 - contribution r) rs) =
   prod_list (map (\<lambda>r. 1 - (if triggered r then confidence r else 0)) rs)"
proof (induction rs)
  case Nil
  show ?case by simp
next
  case (Cons r rs)
  then have "contribution r = (if triggered r then confidence r else 0)"
    by (simp add: contribution_unclamped)
  with Cons show ?case by simp
qed

lemma noisy_or_unclamped:
  assumes "list_all (\<lambda>r. 0 \<le> confidence r \<and> confidence r \<le> 1) rs"
  shows "noisy_or rs =
     1 - prod_list (map (\<lambda>r. 1 - (if triggered r then confidence r else 0)) rs)"
  using prod_complements_unclamped [OF assms] by (simp add: noisy_or_def)

lemma scenario_B_entries:
  "entries (dispatch scenario_B (Some ''pay now'') (Some ''http://absher.example'') None) =
     [\<lparr>triggered = True, confidence = 0.4, reason = ''urgent payment request''\<rparr>,
      \<lparr>triggered = True, confidence = 0.5, reason = ''lookalike domain''\<rparr>]"
  by (simp add: scenario_B_def fixed_adapters_def dispatch_def entries_def invoke_def)

lemma analyze_text_attempts:
  assumes "sid \<noteq> []" "available st"
  shows "phishing_attempts (snd (analyze_text txt sid flow st)) =
     phishing_attempts st @
      (if truthy_result (get_text_result (analyze_sync flow (Some txt) None None sid)) \<and>
          truthy (dict_get (result_dict (get_text_result (analyze_sync flow (Some txt) None None sid))) ''is_fraud'')
       then [\<lparr>attempt_session_id = sid, source = ''text'', content = txt,
              attempt_reason = dict_get_default (result_dict (get_text_result (analyze_sync flow (Some txt) None None sid))) ''reason'' (PyStr ''Fraudulent text detected''),
              attempt_confidence = dict_get_default (result_dict (get_text_result (analyze_sync flow (Some txt) None None sid))) ''confidence'' (PyFloat 0),
              attempt_created_at = clock st + 2\<rparr>]
       else [])"
  using assms
  by (simp add: analyze_text_def action_defs repo_defs Let_def upsert_session_present)

lemma analyze_logo_attempts:
  assumes "sid \<noteq> []" "available st"
  shows "phishing_attempts (snd (analyze_logo Image_open upl sid flow st)) =
     phishing_attempts st @
      (case Image_open (contents upl) of
         Inl e \<Rightarrow> []
       | Inr img \<Rightarrow>
          (if truthy_result (get_logo_result (analyze_sync flow None None (Some img) sid)) \<and>
              truthy (dict_get (result_dict (get_logo_result (analyze_sync flow None None (Some img) sid))) ''is_suspicious'')
           then [\<lparr>attempt_session_id = sid, source = ''logo'', content = filename upl,
                  attempt_reason = dict_get_default (result_dict (get_logo_result (analyze_sync flow None None (Some img) sid))) ''reason'' (PyStr ''Suspicious logo detected''),
                  attempt_confidence = dict_get_default (result_dict (get_logo_result (analyze_sync flow None None (Some img) sid))) ''confidence'' (PyFloat 0),
                  attempt_created_at = clock st + 2\<rparr>]
           else []))"
  using assms
  by (cases "Image_open (contents upl)")
    (simp_all add: analyze_logo_def action_defs repo_defs Let_def upsert_session_present)

lemma analyze_url_attempts:
  assumes "sid \<noteq> []" "available st"
  shows "phishing_attempts (snd (analyze_url u sid flow st)) =
     phishing_attempts st @
      (if truthy_result (get_url_result (analyze_sync flow None (Some u) None sid)) \<and>
          \<not> truthy (dict_get (result_dict (get_url_result (analyze_sync flow None (Some u) None sid))) ''safe'')
       then [\<lparr>attempt_session_id = sid, source = ''url'', content = u,
              attempt_reason = dict_get_default (result_dict (get_url_result (analyze_sync flow None (Some u) None sid))) ''reason'' (PyStr ''Malicious URL detected''),
              attempt_confidence = dict_get_default (result_dict (get_url_result (analyze_sync flow None (Some u) None sid))) ''confidence'' (PyFloat 0),
              attempt_created_at = clock st + 2\<rparr>]
       else [])"
  using assms
  by (simp add: analyze_url_def action_defs repo_defs Let_def upsert_session_present)

lemma scenario_A_result:
  "analyze_sync (fusion_workflow scenario_A) (Some txt) None None sid =
     \<lparr>get_text_result = Some [(''is_fraud'', PyBool True), (''confidence'', PyFloat 0.9),
                              (''reason'', PyStr ''asks for a one-time password'')],
      get_logo_result = None, get_url_result = None,
      get_final_decision = Some ''dangerous'', get_risk_score = Some 0.9,
      get_explanation = Some ''asks for a one-time password''\<rparr>"
  by (simp add: fusion_workflow_def scenario_A_def fixed_adapters_def fusion_analyze_sync_def
      dispatch_def invoke_def fuse_def entries_def noisy_or_def contribution_def
      clamp_confidence_def decide_def explain_def text_native_def Let_def)

lemma scenario_B_result:
  "analyze_sync (fusion_workflow scenario_B) (Some txt) (Some u) None sid =
     \<lparr>get_text_result = Some [(''is_fraud'', PyBool True), (''confidence'', PyFloat 0.4),
                              (''reason'', PyStr ''urgent payment request'')],
      get_logo_result = None,
      get_url_result = Some [(''safe'', PyBool False), (''confidence'', PyFloat 0.5),
                             (''reason'', PyStr ''lookalike domain'')],
      get_final_decision = Some ''dangerous'', get_risk_score = Some 0.7,
      get_explanation = Some ''urgent payment requestlookalike domain''\<rparr>"
  by (simp add: fusion_workflow_def scenario_B_def fixed_adapters_def fusion_analyze_sync_def
      dispatch_def invoke_def fuse_def entries_def noisy_or_def contribution_def
      clamp_confidence_def decide_def explain_def text_native_def url_native_def Let_def)


section \<open>Fusion: risk score and decision\<close>

text \<open>
  Claim C1. For an analysis with a non-empty set of modality results whose confidences lie
  in [0,1] (the adapter contract), the risk score returned by the workflow is the noisy-OR
  combination 1 - \<Prod>(1 - c_i), where c_i is the confidence of a triggered modality and 0
  otherwise, and the decision follows the fixed thresholds: below 0.3 safe, from 0.3 and
  below 0.7 suspicious, from 0.7 dangerous.
\<close>

theorem fusion_noisy_or_and_thresholds:
  assumes "entries (dispatch ad txt u img) \<noteq> []"
    and "list_all (\<lambda>r. 0 \<le> confidence r \<and> confidence r \<le> 1) (entries (dispatch ad txt u img))"
  shows "\<exists>risk. get_risk_score (fusion_analyze_sync ad txt u img sid) = Some risk \<and>
      risk = 1 - prod_list (map (\<lambda>r. 1 - (if triggered r then confidence r else 0))
                              (entries (dispatch ad txt u img))) \<and>
      (risk < 0.3 \<longrightarrow>
         get_final_decision (fusion_analyze_sync ad txt u img sid) = Some ''safe'') \<and>
      (0.3 \<le> risk \<and> risk < 0.7 \<longrightarrow>
         get_final_decision (fusion_analyze_sync ad txt u img sid) = Some ''suspicious'') \<and>
      (0.7 \<le> risk \<longrightarrow>
         get_final_decision (fusion_analyze_sync ad txt u img sid) = Some ''dangerous'')"
  using assms noisy_or_unclamped [OF assms(2)]
  by (simp add: fusion_analyze_sync_def fuse_def decide_def Let_def)

text \<open>Scenario B: 1 - (1 - 0.4)(1 - 0.5) = 0.7, which is dangerous.\<close>

theorem fusion_noisy_or_and_thresholds_witness:
  "get_risk_score (fusion_analyze_sync scenario_B (Some ''pay now'')
      (Some ''http://absher.example'') None ''s1'') = Some 0.7 \<and>
   get_final_decision (fusion_analyze_sync scenario_B (Some ''pay now'')
      (Some ''http://absher.example'') None ''s1'') = Some ''dangerous''"
  using fusion_noisy_or_and_thresholds
    [of scenario_B "Some ''pay now''" "Some ''http://absher.example''" None "''s1''"]
  by (auto simp: scenario_B_entries)


section \<open>Health check\<close>

text \<open>
  The status logic of the health check, given what the liveness probe says: with a
  \<^verbatim>\<open>Session.execute\<close> that runs a plain string (SQLAlchemy before 2.0) the status is
  healthy exactly when all three models are loaded and the store is reachable,
  degraded_fallback exactly when the store is reachable and some model is not loaded, and
  degraded exactly when the store is unreachable.
\<close>

lemma health_status_when_plain_string_runs:
  "(status (fst (health_check execute_before_2_0 flow st)) = ''healthy'' \<longleftrightarrow>
      model_loaded (logo_agent flow) \<and> model_loaded (text_agent flow) \<and>
      model_loaded (url_agent flow) \<and> available st) \<and>
   (status (fst (health_check execute_before_2_0 flow st)) = ''degraded_fallback'' \<longleftrightarrow>
      available st \<and> \<not> (model_loaded (logo_agent flow) \<and> model_loaded (text_agent flow) \<and>
      model_loaded (url_agent flow))) \<and>
   (status (fst (health_check execute_before_2_0 flow st)) = ''degraded'' \<longleftrightarrow> \<not> available st)"
  by (simp add: health_check_def execute_before_2_0_def run_statement_def Let_def)

text \<open>
  Claim C7 does not hold of the code as it runs on SQLAlchemy 2.0 or later: the probe is
  given the plain string "SELECT 1", which that library refuses with ArgumentError; the
  bare except takes this for a lost connection. With all three models loaded and the
  store reachable the status is degraded, not healthy, and with the url model missing it
  is degraded, not degraded_fallback.
\<close>

theorem health_probe_plain_string_always_degraded:
  "available empty_store \<and>
   model_loaded (logo_agent (constant_workflow no_keys)) \<and>
   model_loaded (text_agent (constant_workflow no_keys)) \<and>
   model_loaded (url_agent (constant_workflow no_keys)) \<and>
   fst (health_check execute_from_2_0 (constant_workflow no_keys) empty_store) =
     \<lparr>status = ''degraded'',
      models_loaded = [(''logo_agent'', True), (''text_agent'', True), (''url_agent'', True)],
      database_connected = False\<rparr> \<and>
   status (fst (health_check execute_from_2_0
      ((constant_workflow no_keys)\<lparr>url_agent := Agent None\<rparr>) empty_store)) = ''degraded'' \<and>
   status (fst (health_check execute_from_2_0 flow st)) = ''degraded''"
  by (simp add: health_check_def execute_from_2_0_def raise_def Let_def constant_workflow_def
      empty_store_def model_loaded_def)


section \<open>Chat history\<close>

text \<open>
  Claim C6. The count field of the chat-history response equals the number of chat turns
  actually returned in that response, which is at most the limit (and at most the number
  of matching turns in the store); the call itself leaves the store as it was.
\<close>

theorem history_total_counts_returned:
  "\<exists>resp. get_chat_history sid limit st = (Inr resp, st) \<and>
      total resp = length (history resp) \<and>
      int (total resp) \<le> max 0 limit \<and>
      total resp \<le> length (filter (matches_session sid) (chat_turns st))"
  by (simp add: get_chat_history_def repo_get_chat_history_def action_defs)

text \<open>With three matching turns in the store and limit 2, the count is 2, not 3.\<close>

theorem history_total_counts_returned_witness:
  "map_sum id total (fst (get_chat_history (Some ''s1'') 2 three_turns)) = Inr 2 \<and>
   map_sum id (\<lambda>r. length (history r)) (fst (get_chat_history (Some ''s1'') 2 three_turns)) = Inr 2 \<and>
   length (filter (matches_session (Some ''s1'')) (chat_turns three_turns)) = 3"
  using history_total_counts_returned [of "Some ''s1''" 2 three_turns]
  by (simp add: get_chat_history_def repo_get_chat_history_def action_defs three_turns_def
      matches_session_def)


section \<open>Phishing attempts of the single-modality handlers\<close>

text \<open>
  Claim C2, as stated, fails. The single-modality handlers never read the fused decision:
  with the text classifier triggering at confidence 0.1 the fused risk is 0.1 and the
  decision is safe, yet a PhishingAttempt tagged text is recorded.
\<close>

theorem single_modality_attempt_counterexample:
  "map_sum id final_decision
     (fst (analyze_text ''you won a prize'' ''s1'' (fusion_workflow low_confidence_trigger) empty_store))
     = Inr ''safe'' \<and>
   map source
     (phishing_attempts (snd (analyze_text ''you won a prize'' ''s1''
        (fusion_workflow low_confidence_trigger) empty_store))) = [''text'']"
  by (simp add: analyze_text_def action_defs repo_defs Let_def fusion_workflow_def
      low_confidence_trigger_def fixed_adapters_def fusion_analyze_sync_def dispatch_def invoke_def
      fuse_def entries_def noisy_or_def contribution_def clamp_confidence_def decide_def
      text_native_def truthy_result_def result_dict_def dict_get_def dict_get_default_def
      get_or_def empty_store_def)

text \<open>
  Claim C2, amended. For a call with a non-empty session id on a reachable store, each
  single-modality handler records a PhishingAttempt tagged with its modality exactly when
  that modality's result is a non-empty dictionary whose own flag is raised (is_fraud truthy
  for text, is_suspicious truthy for logo, safe not truthy for url), whatever the fused
  decision is; it records at most one, after the attempts already stored. The logo handler
  does so when the upload decodes as an image, and records nothing when it does not.
\<close>

theorem single_modality_attempt_follows_flag:
  assumes "sid \<noteq> []" and "available st"
  shows "phishing_attempts (snd (analyze_text txt sid flow st)) =
     phishing_attempts st @
      (if truthy_result (get_text_result (analyze_sync flow (Some txt) None None sid)) \<and>
          truthy (dict_get (result_dict (get_text_result (analyze_sync flow (Some txt) None None sid))) ''is_fraud'')
       then [\<lparr>attempt_session_id = sid, source = ''text'', content = txt,
              attempt_reason = dict_get_default (result_dict (get_text_result (analyze_sync flow (Some txt) None None sid))) ''reason'' (PyStr ''Fraudulent text detected''),
              attempt_confidence = dict_get_default (result_dict (get_text_result (analyze_sync flow (Some txt) None None sid))) ''confidence'' (PyFloat 0),
              attempt_created_at = clock st + 2\<rparr>]
       else []) \<and>
   phishing_attempts (snd (analyze_logo Image_open upl sid flow st)) =
     phishing_attempts st @
      (case Image_open (contents upl) of
         Inl e \<Rightarrow> []
       | Inr img \<Rightarrow>
          (if truthy_result (get_logo_result (analyze_sync flow None None (Some img) sid)) \<and>
              truthy (dict_get (result_dict (get_logo_result (analyze_sync flow None None (Some img) sid))) ''is_suspicious'')
           then [\<lparr>attempt_session_id = sid, source = ''logo'', content = filename upl,
                  attempt_reason = dict_get_default (result_dict (get_logo_result (analyze_sync flow None None (Some img) sid))) ''reason'' (PyStr ''Suspicious logo detected''),
                  attempt_confidence = dict_get_default (result_dict (get_logo_result (analyze_sync flow None None (Some img) sid))) ''confidence'' (PyFloat 0),
                  attempt_created_at = clock st + 2\<rparr>]
           else [])) \<and>
   phishing_attempts (snd (analyze_url u sid flow st)) =
     phishing_attempts st @
      (if truthy_result (get_url_result (analyze_sync flow None (Some u) None sid)) \<and>
          \<not> truthy (dict_get (result_dict (get_url_result (analyze_sync flow None (Some u) None sid))) ''safe'')
       then [\<lparr>attempt_session_id = sid, source = ''url'', content = u,
              attempt_reason = dict_get_default (result_dict (get_url_result (analyze_sync flow None (Some u) None sid))) ''reason'' (PyStr ''Malicious URL detected''),
              attempt_confidence = dict_get_default (result_dict (get_url_result (analyze_sync flow None (Some u) None sid))) ''confidence'' (PyFloat 0),
              attempt_created_at = clock st + 2\<rparr>]
       else [])"
  using analyze_text_attempts [OF assms] analyze_logo_attempts [OF assms]
    analyze_url_attempts [OF assms]
  by blast

text \<open>
  Scenario A: text only, triggered with confidence 0.9; exactly one PhishingAttempt,
  tagged text, is recorded.
\<close>

theorem single_modality_attempt_follows_flag_witness:
  "phishing_attempts (snd (analyze_text ''send me the code'' ''s1'' (fusion_workflow scenario_A) empty_store)) =
     [\<lparr>attempt_session_id = ''s1'', source = ''text'', content = ''send me the code'',
       attempt_reason = PyStr ''asks for a one-time password'',
       attempt_confidence = PyFloat 0.9, attempt_created_at = 2\<rparr>]"
  using single_modality_attempt_follows_flag [where sid = "''s1''" and st = empty_store
      and ?txt = "''send me the code''" and flow = "fusion_workflow scenario_A"]
  by (simp add: scenario_A_result truthy_result_def result_dict_def dict_get_def
      dict_get_default_def empty_store_def)


section \<open>Phishing attempts of the multi-input handler\<close>

text \<open>
  Claim C3, as stated, fails. In Scenario B the fused decision is dangerous, but on an
  unreachable store the first scan cannot be recorded, the call ends in HTTPException 500
  and no PhishingAttempt, combined or other, is recorded.
\<close>

theorem analyze_all_outage_counterexample:
  "get_final_decision (analyze_sync (fusion_workflow scenario_B) (Some ''pay now'')
      (Some ''http://absher.example'') None ''s1'') = Some ''dangerous'' \<and>
   fst (analyze_all every_upload_decodes (Some ''pay now'') (Some ''http://absher.example'') None
      ''s1'' (fusion_workflow scenario_B) (empty_store\<lparr>available := False\<rparr>)) =
     Inl (HTTPException 500 StorageUnavailable) \<and>
   phishing_attempts (snd (analyze_all every_upload_decodes (Some ''pay now'')
      (Some ''http://absher.example'') None ''s1'' (fusion_workflow scenario_B)
      (empty_store\<lparr>available := False\<rparr>))) = []"
  by (simp add: analyze_all_def action_defs repo_defs Let_def open_upload_def scenario_B_result
      truthy_result_def truthy_str_def result_dict_def empty_store_def)

text \<open>
  Claim C3, amended. For a call of the multi-input analysis with a non-empty session id on
  a reachable store whose upload, if there is one, decodes as an image, exactly one
  PhishingAttempt, tagged combined, is appended if and only if the fused decision is
  suspicious or dangerous; none is appended otherwise, and never a per-modality attempt.
\<close>

theorem analyze_all_combined_attempt:
  assumes "sid \<noteq> []" and "available st"
    and "open_upload Image_open oupl = Inr oimg"
  shows "\<exists>new.
      phishing_attempts (snd (analyze_all Image_open otxt ou oupl sid flow st)) =
        phishing_attempts st @ new \<and>
      (length new = 1 \<longleftrightarrow>
         get_final_decision (analyze_sync flow otxt ou oimg sid) \<in>
           {Some ''suspicious'', Some ''dangerous''}) \<and>
      (new = [] \<longleftrightarrow>
         get_final_decision (analyze_sync flow otxt ou oimg sid) \<notin>
           {Some ''suspicious'', Some ''dangerous''}) \<and>
      list_all (\<lambda>a. source a = ''combined'') new"
  using assms
  by (auto simp add: analyze_all_def action_defs repo_defs Let_def upsert_session_present)

theorem analyze_all_combined_attempt_witness:
  "map source (phishing_attempts (snd (analyze_all every_upload_decodes (Some ''pay now'')
      (Some ''http://absher.example'') None ''s1'' (fusion_workflow scenario_B) empty_store)))
     = [''combined'']"
  using analyze_all_combined_attempt [where sid = "''s1''" and st = empty_store
      and Image_open = every_upload_decodes and oupl = None and oimg = None
      and otxt = "Some ''pay now''" and ou = "Some ''http://absher.example''"
      and flow = "fusion_workflow scenario_B"]
  by (auto simp: scenario_B_result open_upload_def empty_store_def length_Suc_conv)


section \<open>Chat response\<close>

text \<open>
  Claim C4 does not hold of the code: the branch commented as the dangerous one is the
  else branch, so the decision unknown is answered with the warning template of dangerous
  and has no template of its own. With every classifier unavailable the decision is
  unknown and the bot message is the phishing warning followed by the risk score 0%.
\<close>

theorem chat_unknown_gets_dangerous_template:
  "compose_bot_message ''unknown'' r e = compose_bot_message ''dangerous'' r e \<and>
   map_sum id (final_decision \<circ> analysis)
     (fst (chat Image_open ''hello'' None None ''s1'' (fusion_workflow all_unavailable) empty_store))
     = Inr ''unknown'' \<and>
   map_sum id message
     (fst (chat Image_open ''hello'' None None ''s1'' (fusion_workflow all_unavailable) empty_store))
     = Inr (dangerous_template @ [CHR 0x0A, CHR 0x0A] @ ''No input provided for analysis.'' @
            [CHR 0x0A, CHR 0x0A] @ ''Risk Score: 0%'')"
  by (simp add: compose_bot_message_def chat_def action_defs repo_defs Let_def open_upload_def
      fusion_workflow_def all_unavailable_def fixed_adapters_def fusion_analyze_sync_def
      dispatch_def invoke_def fuse_def entries_def truthy_result_def truthy_str_def get_or_def
      empty_store_def format_percent_def round_half_even_def)


section \<open>Persistence failure\<close>

text \<open>
  Claim C5, as stated, fails. With the store unreachable, the text analysis of Scenario A
  ends in HTTPException 500 with the storage failure as detail; no analysis result is
  returned, although the session had been touched.
\<close>

theorem storage_outage_counterexample:
  "analyze_text ''send me the code'' ''s1'' (fusion_workflow scenario_A)
     (empty_store\<lparr>available := False\<rparr>) =
   (Inl (HTTPException 500 StorageUnavailable),
    empty_store\<lparr>available := False,
      sessions := [(''s1'', \<lparr>created_at = 0, last_active_at = 0\<rparr>)], clock := 1\<rparr>)"
  by (simp add: analyze_text_def action_defs repo_defs Let_def scenario_A_result
      truthy_result_def result_dict_def empty_store_def)

text \<open>
  Claim C5, amended. When the store is unreachable and a scan has to be recorded, every
  analysis handler fails as a whole with HTTPException 500 whose detail is the storage
  failure; the computed analysis result is not returned. (A scan has to be recorded when
  the session id is not empty, the upload, if any, decodes, and the workflow gives a
  non-empty result for an input that is present.)
\<close>

theorem storage_outage_is_http_500:
  assumes "sid \<noteq> []" and "\<not> available st"
  shows "(truthy_result (get_text_result (analyze_sync flow (Some txt) None None sid)) \<longrightarrow>
            fst (analyze_text txt sid flow st) = Inl (HTTPException 500 StorageUnavailable)) \<and>
         (Image_open (contents upl) = Inr img \<and>
          truthy_result (get_logo_result (analyze_sync flow None None (Some img) sid)) \<longrightarrow>
            fst (analyze_logo Image_open upl sid flow st) =
              Inl (HTTPException 500 StorageUnavailable)) \<and>
         (truthy_result (get_url_result (analyze_sync flow None (Some u) None sid)) \<longrightarrow>
            fst (analyze_url u sid flow st) = Inl (HTTPException 500 StorageUnavailable)) \<and>
         (open_upload Image_open oupl = Inr oimg \<and>
          (truthy_result (get_logo_result (analyze_sync flow otxt ou oimg sid)) \<and> oupl \<noteq> None \<or>
           truthy_result (get_text_result (analyze_sync flow otxt ou oimg sid)) \<and> truthy_str otxt \<or>
           truthy_result (get_url_result (analyze_sync flow otxt ou oimg sid)) \<and> truthy_str ou)
            \<longrightarrow>
            fst (analyze_all Image_open otxt ou oupl sid flow st) =
              Inl (HTTPException 500 StorageUnavailable))"
proof -
  have text_and_url:
    "(truthy_result (get_text_result (analyze_sync flow (Some txt) None None sid)) \<longrightarrow>
        fst (analyze_text txt sid flow st) = Inl (HTTPException 500 StorageUnavailable)) \<and>
     (truthy_result (get_url_result (analyze_sync flow None (Some u) None sid)) \<longrightarrow>
        fst (analyze_url u sid flow st) = Inl (HTTPException 500 StorageUnavailable))"
    using assms
    by (simp add: analyze_text_def analyze_url_def action_defs repo_defs Let_def
        upsert_session_present)
  have logo:
    "Image_open (contents upl) = Inr img \<and>
     truthy_result (get_logo_result (analyze_sync flow None None (Some img) sid)) \<longrightarrow>
       fst (analyze_logo Image_open upl sid flow st) = Inl (HTTPException 500 StorageUnavailable)"
    using assms
    by (simp add: analyze_logo_def action_defs repo_defs Let_def upsert_session_present)
  have all:
    "open_upload Image_open oupl = Inr oimg \<and>
     (truthy_result (get_logo_result (analyze_sync flow otxt ou oimg sid)) \<and> oupl \<noteq> None \<or>
      truthy_result (get_text_result (analyze_sync flow otxt ou oimg sid)) \<and> truthy_str otxt \<or>
      truthy_result (get_url_result (analyze_sync flow otxt ou oimg sid)) \<and> truthy_str ou)
      \<longrightarrow>
      fst (analyze_all Image_open otxt ou oupl sid flow st) =
        Inl (HTTPException 500 StorageUnavailable)"
    using assms
    by (auto simp add: analyze_all_def action_defs repo_defs Let_def upsert_session_present)
  from text_and_url logo all show ?thesis by blast
qed

theorem storage_outage_is_http_500_witness:
  "fst (analyze_text ''send me the code'' ''s1'' (fusion_workflow scenario_A)
     (empty_store\<lparr>available := False\<rparr>)) = Inl (HTTPException 500 StorageUnavailable)"
  using storage_outage_is_http_500 [where sid = "''s1''"
      and st = "empty_store\<lparr>available := False\<rparr>"
      and flow = "fusion_workflow scenario_A" and ?txt = "''send me the code''"]
  by (simp add: scenario_A_result truthy_result_def empty_store_def)


section \<open>No input\<close>

text \<open>
  Claim C8. An analysis call with no input at all writes no ScanRecord and no
  PhishingAttempt; for a non-empty session id it answers with risk score 0.0 and decision
  unknown, and the only change to the store is that the session is ensured.
\<close>

theorem no_input_writes_nothing:
  "scans (snd (analyze_all Image_open None None None sid (flow\<lparr>analyze_sync := fusion_analyze_sync ad\<rparr>) st)) = scans st \<and>
   phishing_attempts (snd (analyze_all Image_open None None None sid (flow\<lparr>analyze_sync := fusion_analyze_sync ad\<rparr>) st))
     = phishing_attempts st \<and>
   (sid \<noteq> [] \<longrightarrow>
     analyze_all Image_open None None None sid (flow\<lparr>analyze_sync := fusion_analyze_sync ad\<rparr>) st =
       (Inr \<lparr>logo_result = None, text_result = None, url_result = None,
             final_decision = ''unknown'', risk_score = 0,
             explanation = ''No input provided for analysis.'', session_id = sid\<rparr>,
        st\<lparr>sessions := upsert_session sid (clock st) (sessions st), clock := Suc (clock st)\<rparr>))"
  by (simp add: analyze_all_def action_defs repo_defs Let_def open_upload_def
      fusion_analyze_sync_def dispatch_def invoke_def fuse_def entries_def truthy_result_def truthy_str_def get_or_def)

theorem no_input_writes_nothing_witness:
  "analyze_all every_upload_decodes None None None ''s1'' (fusion_workflow scenario_A) empty_store =
     (Inr \<lparr>logo_result = None, text_result = None, url_result = None,
           final_decision = ''unknown'', risk_score = 0,
           explanation = ''No input provided for analysis.'', session_id = ''s1''\<rparr>,
      empty_store\<lparr>sessions := [(''s1'', \<lparr>created_at = 0, last_active_at = 0\<rparr>)], clock := 1\<rparr>)"
  using no_input_writes_nothing [where sid = "''s1''" and flow = "fusion_workflow scenario_A"
      and ad = scenario_A and st = empty_store and Image_open = every_upload_decodes]
  by (simp add: fusion_workflow_def empty_store_def)


section \<open>Session identity\<close>

text \<open>
  Claim C9. Ensuring a session with an empty id fails with InvalidIdentity, and every
  handler that ensures the session rejects such a call (as HTTPException 500 carrying
  that error) with the store unchanged; ensuring a session with a non-empty id never
  errors.
\<close>

theorem empty_session_id_rejected:
  "repo_create_or_update_session [] st = (Inl InvalidIdentity, st) \<and>
   analyze_text txt [] flow st = (Inl (HTTPException 500 InvalidIdentity), st) \<and>
   analyze_logo Image_open upl [] flow st = (Inl (HTTPException 500 InvalidIdentity), st) \<and>
   analyze_url u [] flow st = (Inl (HTTPException 500 InvalidIdentity), st) \<and>
   analyze_all Image_open otxt ou oupl [] flow st = (Inl (HTTPException 500 InvalidIdentity), st) \<and>
   chat Image_open msg ou oupl [] flow st = (Inl (HTTPException 500 InvalidIdentity), st) \<and>
   (sid \<noteq> [] \<longrightarrow> fst (repo_create_or_update_session sid st) = Inr ())"
  by (simp add: analyze_text_def analyze_logo_def analyze_url_def analyze_all_def chat_def
      action_defs repo_create_or_update_session_def)

theorem empty_session_id_rejected_witness:
  "analyze_text ''hello'' [] (fusion_workflow scenario_A) three_turns =
     (Inl (HTTPException 500 InvalidIdentity), three_turns) \<and>
   fst (repo_create_or_update_session ''s1'' three_turns) = Inr ()"
  using empty_session_id_rejected [where st = three_turns and ?txt = "''hello''" and flow = "fusion_workflow scenario_A"
       and sid = "''s1''"]
  by simp


section \<open>Unsafe url results\<close>

text \<open>
  Claim C10, as stated, fails. An empty url result dictionary lacks the safe key
  entirely, but it is falsy, so the handler skips it: the call succeeds and no
  PhishingAttempt is recorded.
\<close>

theorem empty_url_result_counterexample:
  "get_url_result (analyze_sync (constant_workflow empty_url_result) None
      (Some ''http://absher.example'') None ''s1'') = Some [] \<and>
   \<not> truthy (dict_get [] ''safe'') \<and>
   fst (analyze_url ''http://absher.example'' ''s1'' (constant_workflow empty_url_result) empty_store)
     = Inr \<lparr>logo_result = None, text_result = None, url_result = Some [],
            final_decision = ''unknown'', risk_score = 0, explanation = [], session_id = ''s1''\<rparr> \<and>
   phishing_attempts (snd (analyze_url ''http://absher.example'' ''s1''
      (constant_workflow empty_url_result) empty_store)) = []"
  by (simp add: analyze_url_def action_defs repo_defs Let_def constant_workflow_def
      empty_url_result_def no_keys_def truthy_result_def dict_get_def get_or_def empty_store_def)

text \<open>
  Claim C10, amended. For a url analysis with a non-empty session id on a reachable
  store whose url result is a non-empty dictionary without a truthy safe key, exactly one
  PhishingAttempt tagged url is recorded; its reason is the dictionary's reason, or
  "Malicious URL detected" when that key is absent, and its confidence is the dictionary's
  confidence, or 0.0 when that key is absent.
\<close>

theorem unsafe_url_attempt_with_defaults:
  assumes "sid \<noteq> []" and "available st"
    and "get_url_result (analyze_sync flow None (Some u) None sid) = Some d"
    and "d \<noteq> []"
    and "\<not> truthy (dict_get d ''safe'')"
  shows "phishing_attempts (snd (analyze_url u sid flow st)) =
     phishing_attempts st @
       [\<lparr>attempt_session_id = sid, source = ''url'', content = u,
         attempt_reason =
           (case map_of d ''reason'' of None \<Rightarrow> PyStr ''Malicious URL detected'' | Some v \<Rightarrow> v),
         attempt_confidence =
           (case map_of d ''confidence'' of None \<Rightarrow> PyFloat 0 | Some v \<Rightarrow> v),
         attempt_created_at = clock st + 2\<rparr>]"
  using assms analyze_url_attempts [OF assms(1,2), of u flow]
  by (simp add: truthy_result_def result_dict_def dict_get_default_def)

theorem unsafe_url_attempt_with_defaults_witness:
  "phishing_attempts (snd (analyze_url ''http://absher.example'' ''s1''
      (constant_workflow bare_url_result) empty_store)) =
     [\<lparr>attempt_session_id = ''s1'', source = ''url'', content = ''http://absher.example'',
       attempt_reason = PyStr ''Malicious URL detected'',
       attempt_confidence = PyFloat 0, attempt_created_at = 2\<rparr>]"
  using unsafe_url_attempt_with_defaults
    [where sid = "''s1''" and st = empty_store and flow = "constant_workflow bare_url_result"
       and u = "''http://absher.example''" and d = "[(''domain'', PyStr ''absher.example'')]"]
  by (simp add: constant_workflow_def bare_url_result_def no_keys_def dict_get_def empty_store_def)

end
